theory Spec2Isabelle
  imports Main
begin

section \<open>Parties: the model classes of parties/models.py\<close>

text \<open>
  Date-times are points on a linear time line and are modelled as integers (ticks since
  an epoch); the value of \<^verbatim>\<open>timezone.now()\<close> is passed to every operation that reads
  the clock.  Nullable columns are options.  Character columns stay strings: the
  \<^verbatim>\<open>choices\<close> of a column are not a type in the source, and the code compares the
  column with string literals.  Keys (the primary keys of users and parties) are natural
  numbers.
\<close>

type_synonym datetime = int
type_synonym key = nat

text \<open>
  Modelled from the spec: the primary key \<open>party_id\<close>, which \<^verbatim>\<open>Party\<close> inherits
  from its base class \<^verbatim>\<open>BaseModel\<close> of \<^verbatim>\<open>apps.core.models\<close>, a module that is
  not among the sources.  In the spec's data model an RSVP belongs to one party, so a
  party has an identity that RSVP rows refer to.  The other fields are columns that
  class \<^verbatim>\<open>Party\<close> declares: the ones read by the properties below, together with
  the identifying and classifying columns.
\<close>

record party =
  party_id :: key
  title :: string
  slug :: string
  host :: key
  start_date :: datetime
  end_date :: datetime
  rsvp_deadline :: "datetime option"
  privacy_level :: string
  status :: string
  rsvp_type :: string
  max_attendees :: "nat option"

text \<open>Class \<^verbatim>\<open>PartyRSVP\<close>; \<^verbatim>\<open>party\<close> and \<^verbatim>\<open>user\<close> are foreign keys.\<close>

record party_rsvp =
  rsvp_party :: key
  rsvp_user :: key
  rsvp_status :: string
  plus_ones :: nat
  message :: string
  dietary_restrictions :: string
  approved_by_host :: bool
  checked_in :: bool
  checked_in_at :: "datetime option"

text \<open>Class \<^verbatim>\<open>PartyLike\<close>.\<close>

record party_like =
  like_party :: key
  like_user :: key

text \<open>The tables \<^verbatim>\<open>party_rsvps\<close> and \<^verbatim>\<open>party_likes\<close>, as lists of rows.\<close>

record party_store =
  party_rsvps :: "party_rsvp list"
  party_likes :: "party_like list"

subsection \<open>Derived properties of a party\<close>

definition is_past :: "datetime \<Rightarrow> party \<Rightarrow> bool" where
  "is_past now p = (end_date p < now)"

definition is_upcoming :: "datetime \<Rightarrow> party \<Rightarrow> bool" where
  "is_upcoming now p = (start_date p > now)"

text \<open>
  \<^verbatim>\<open>can_rsvp\<close>: three guarded early returns, then \<^verbatim>\<open>True\<close>.  A date-time object
  is always truthy in Python, so \<^verbatim>\<open>self.rsvp_deadline and ...\<close> tests that the
  deadline is not \<^verbatim>\<open>None\<close>.
\<close>

definition can_rsvp :: "datetime \<Rightarrow> party \<Rightarrow> bool" where
  "can_rsvp now p =
     (if rsvp_type p = ''closed'' then False
      else if (case rsvp_deadline p of None \<Rightarrow> False | Some d \<Rightarrow> now > d) then False
      else if is_past now p then False
      else True)"

text \<open>
  \<^verbatim>\<open>self.rsvps\<close> is the reverse side of the foreign key \<^verbatim>\<open>PartyRSVP.party\<close>
  (\<^verbatim>\<open>related_name='rsvps'\<close>): the rows of the table whose party is this one.
  \<^verbatim>\<open>attendee_count\<close> filters them by status and counts, against the table as it is
  at the time of the call.
\<close>

definition rsvps :: "party_store \<Rightarrow> party \<Rightarrow> party_rsvp list" where
  "rsvps s p = filter (\<lambda>r. rsvp_party r = party_id p) (party_rsvps s)"

definition attendee_count :: "party_store \<Rightarrow> party \<Rightarrow> nat" where
  "attendee_count s p = length (filter (\<lambda>r. rsvp_status r = ''attending'') (rsvps s p))"

text \<open>
  Changing the status of a stored RSVP: the row at position \<open>i\<close> of the table gets the
  new status and is written back; a position outside the table names no row and nothing
  is written.
\<close>

definition set_rsvp_status :: "party_store \<Rightarrow> nat \<Rightarrow> string \<Rightarrow> party_store" where
  "set_rsvp_status s i st =
     (if i < length (party_rsvps s)
      then s\<lparr>party_rsvps := (party_rsvps s)[i := (party_rsvps s ! i)\<lparr>rsvp_status := st\<rparr>]\<rparr>
      else s)"

subsection \<open>The uniqueness constraints of the RSVP and like tables\<close>

text \<open>
  Errors are values.  \<^verbatim>\<open>ValidationError\<close> carries the error dictionary of a
  serializer as an association list from a field name (or \<^verbatim>\<open>non_field_errors\<close>) to
  its messages; \<^verbatim>\<open>IntegrityError\<close> is what the database raises when a write breaks a
  declared constraint, \<^verbatim>\<open>DatabaseError\<close> what Django raises when a save restricted
  to some columns finds no row to update, and \<^verbatim>\<open>ValueError\<close> what
  \<^verbatim>\<open>create_user\<close> raises on an empty username.
\<close>

datatype error =
    ValidationError "(string \<times> string list) list"
  | IntegrityError
  | DatabaseError
  | ValueError

text \<open>
  Both \<^verbatim>\<open>PartyRSVP.Meta\<close> and \<^verbatim>\<open>PartyLike.Meta\<close> declare
  \<^verbatim>\<open>unique_together = ['party', 'user']\<close>: a write that would leave two rows with the
  same pair of keys raises and leaves the table as it was.  A row is addressed by its
  position in the table.
\<close>

definition rsvp_pair :: "party_rsvp \<Rightarrow> key \<times> key" where
  "rsvp_pair r = (rsvp_party r, rsvp_user r)"

definition like_pair :: "party_like \<Rightarrow> key \<times> key" where
  "like_pair l = (like_party l, like_user l)"

definition rsvp_create :: "party_store \<Rightarrow> party_rsvp \<Rightarrow> error + party_store" where
  "rsvp_create s r =
     (if list_ex (\<lambda>r'. rsvp_pair r' = rsvp_pair r) (party_rsvps s) then Inl IntegrityError
      else Inr (s\<lparr>party_rsvps := party_rsvps s @ [r]\<rparr>))"

definition like_create :: "party_store \<Rightarrow> party_like \<Rightarrow> error + party_store" where
  "like_create s l =
     (if list_ex (\<lambda>l'. like_pair l' = like_pair l) (party_likes s) then Inl IntegrityError
      else Inr (s\<lparr>party_likes := party_likes s @ [l]\<rparr>))"

text \<open>
  Saving an existing RSVP row with new column values: the pair of the new values must not
  be the pair of any other row.
\<close>

definition rsvp_save :: "party_store \<Rightarrow> nat \<Rightarrow> party_rsvp \<Rightarrow> error + party_store" where
  "rsvp_save s i r =
     (if \<not> i < length (party_rsvps s) then Inr s
      else if list_ex (\<lambda>j. j \<noteq> i \<and> rsvp_pair (party_rsvps s ! j) = rsvp_pair r)
                [0 ..< length (party_rsvps s)]
      then Inl IntegrityError
      else Inr (s\<lparr>party_rsvps := (party_rsvps s)[i := r]\<rparr>))"

definition remove_nth :: "nat \<Rightarrow> 'a list \<Rightarrow> 'a list" where
  "remove_nth i xs = take i xs @ drop (Suc i) xs"

text \<open>
  The writes that reach the two tables: creating, saving and deleting a row, and the
  cascades of \<^verbatim>\<open>on_delete=models.CASCADE\<close> on both foreign keys, which delete the rows
  of a deleted party or user.
\<close>

datatype store_op =
    CreateRSVP party_rsvp
  | SaveRSVP nat party_rsvp
  | DeleteRSVP nat
  | CreateLike party_like
  | DeleteLike nat
  | DeleteParty key
  | DeleteUser key

fun apply_op :: "party_store \<Rightarrow> store_op \<Rightarrow> error + party_store" where
  "apply_op s (CreateRSVP r) = rsvp_create s r"
| "apply_op s (SaveRSVP i r) = rsvp_save s i r"
| "apply_op s (DeleteRSVP i) = Inr (s\<lparr>party_rsvps := remove_nth i (party_rsvps s)\<rparr>)"
| "apply_op s (CreateLike l) = like_create s l"
| "apply_op s (DeleteLike i) = Inr (s\<lparr>party_likes := remove_nth i (party_likes s)\<rparr>)"
| "apply_op s (DeleteParty k) =
     Inr (s\<lparr>party_rsvps := filter (\<lambda>r. rsvp_party r \<noteq> k) (party_rsvps s),
            party_likes := filter (\<lambda>l. like_party l \<noteq> k) (party_likes s)\<rparr>)"
| "apply_op s (DeleteUser k) =
     Inr (s\<lparr>party_rsvps := filter (\<lambda>r. rsvp_user r \<noteq> k) (party_rsvps s),
            party_likes := filter (\<lambda>l. like_user l \<noteq> k) (party_likes s)\<rparr>)"

text \<open>
  A history of writes, starting from empty tables.  A write that raises changes nothing,
  and the history goes on from the same tables.
\<close>

definition empty_store :: party_store where
  "empty_store = \<lparr>party_rsvps = [], party_likes = []\<rparr>"

fun run_ops :: "party_store \<Rightarrow> store_op list \<Rightarrow> party_store" where
  "run_ops s [] = s"
| "run_ops s (x # xs) = run_ops (case apply_op s x of Inl e \<Rightarrow> s | Inr s' \<Rightarrow> s') xs"

text \<open>The invariant of the two tables: the pairs of their rows are pairwise different.\<close>

definition unique_pairs :: "party_store \<Rightarrow> bool" where
  "unique_pairs s =
     (distinct (map rsvp_pair (party_rsvps s)) \<and> distinct (map like_pair (party_likes s)))"

section \<open>Accounts: the model classes of accounts/models.py\<close>

text \<open>
  Class \<^verbatim>\<open>User\<close>, with the columns it declares and the columns of
  \<^verbatim>\<open>AbstractUser\<close> that the serializers read or write (\<^verbatim>\<open>username\<close>, the two
  names, the encoded \<^verbatim>\<open>password\<close> and \<^verbatim>\<open>is_active\<close>).
\<close>

record user =
  user_id :: key
  email :: string
  username :: string
  first_name :: string
  last_name :: string
  password :: string
  is_active :: bool
  user_type :: string
  is_verified :: bool
  is_premium :: bool
  premium_expires_at :: "datetime option"
  created_at :: datetime
  updated_at :: datetime
  last_active :: datetime
  phone_number :: "string option"
  timezone :: string
  language :: string

definition USER_TYPES :: "(string \<times> string) list" where
  "USER_TYPES =
     [(''creator'', ''Event Creator''),
      (''attendee'', ''Party Attendee''),
      (''organizer'', ''Professional Organizer''),
      (''admin'', ''Administrator'')]"

text \<open>
  \<^verbatim>\<open>is_premium_active\<close>.  \<^verbatim>\<open>if self.premium_expires_at\<close> tests that the
  nullable date-time is set.
\<close>

definition is_premium_active :: "datetime \<Rightarrow> user \<Rightarrow> bool" where
  "is_premium_active now u =
     (if \<not> is_premium u then False
      else case premium_expires_at u of
             Some e \<Rightarrow> e > now
           | None \<Rightarrow> True)"

text \<open>Class \<^verbatim>\<open>UserProfile\<close>; \<^verbatim>\<open>user\<close> is a one-to-one key.\<close>

record user_profile =
  profile_user :: key
  bio :: string
  avatar :: "string option"
  location :: string
  website :: string
  profile_privacy_level :: string
  total_parties_created :: nat
  total_parties_attended :: nat
  profile_created_at :: datetime
  profile_updated_at :: datetime

text \<open>
  Modelled from the spec: the class \<^verbatim>\<open>UserSettings\<close>, which serializers.py imports
  from the models module and which that module does not define.  The spec gives it as a
  record in one-to-one relation with a user, created next to the profile at registration;
  the model keeps the key of that relation.
\<close>

record user_settings =
  settings_user :: key

text \<open>The three tables of the accounts application.\<close>

record account_store =
  users :: "user list"
  user_profiles :: "user_profile list"
  user_settings_rows :: "user_settings list"

subsection \<open>What the platform contributes\<close>

text \<open>
  A string of the model is the UTF-8 encoding of a Python string, so literals, equality
  and concatenation are those of the source.  The serializers call into Python's
  library, Django, the REST framework and the database.  What these do is fixed outside
  the repository (by Unicode tables, by project settings, by the database's collation),
  and is a parameter of the model:
  \<^item> \<open>str_lower\<close>, \<open>str_strip\<close>: \<^verbatim>\<open>str.lower()\<close> and \<^verbatim>\<open>str.strip()\<close>;
  \<^item> \<open>iexact\<close>: the case-insensitive comparison of the database's \<^verbatim>\<open>iexact\<close>
    lookup, column value first;
  \<^item> \<open>normalize_username\<close>: \<^verbatim>\<open>unicodedata.normalize('NFKC', username)\<close>;
  \<^item> \<open>regex_search\<close>: whether \<^verbatim>\<open>re.search\<close> finds the pattern in the text;
  \<^item> \<open>valid_email\<close>: the address format accepted by \<^verbatim>\<open>EmailField\<close>;
  \<^item> \<open>valid_username\<close>: the messages of the validators that \<^verbatim>\<open>AbstractUser\<close>
    attaches to \<^verbatim>\<open>username\<close> (empty when the name is accepted);
  \<^item> \<open>validate_password\<close>: the messages raised by the password policy of
    \<^verbatim>\<open>django.contrib.auth.password_validation\<close> (empty when it returns normally);
  \<^item> \<open>make_password\<close>: the encoding of a raw password by the preferred hasher;
  \<^item> \<open>verify_password\<close>: whether a raw password is the one of an encoded credential;
  \<^item> \<open>must_update\<close>: whether an encoded credential is outdated (another hasher than
    the preferred one, or old parameters);
  \<^item> \<open>user_can_authenticate\<close>: the rule of the authentication backend for accounts it
    refuses whatever the password (the stock backend refuses inactive users).
\<close>

record framework =
  str_lower :: "string \<Rightarrow> string"
  str_strip :: "string \<Rightarrow> string"
  iexact :: "string \<Rightarrow> string \<Rightarrow> bool"
  normalize_username :: "string \<Rightarrow> string"
  regex_search :: "string \<Rightarrow> string \<Rightarrow> bool"
  valid_email :: "string \<Rightarrow> bool"
  valid_username :: "string \<Rightarrow> string list"
  validate_password :: "string \<Rightarrow> string list"
  make_password :: "string \<Rightarrow> string"
  verify_password :: "string \<Rightarrow> string \<Rightarrow> bool"
  must_update :: "string \<Rightarrow> bool"
  user_can_authenticate :: "user \<Rightarrow> bool"

text \<open>
  \<^verbatim>\<open>len\<close> of a Python string counts its characters: the bytes of the encoding that
  are not continuation bytes.
\<close>

definition str_len :: "string \<Rightarrow> nat" where
  "str_len x = length (filter (\<lambda>c. \<not> (128 \<le> (of_char c :: nat) \<and> (of_char c :: nat) < 192)) x)"

subsection \<open>Writes to the account tables\<close>

text \<open>
  Inserting a row raises when a declared constraint would break: the primary key and the
  \<^verbatim>\<open>unique\<close> columns of a user (\<^verbatim>\<open>email\<close>, and \<^verbatim>\<open>username\<close> from
  \<^verbatim>\<open>AbstractUser\<close>); for a profile or a settings row, the one-to-one key, which must
  be the key of a stored user and of no other row of the table.
\<close>

definition user_insert :: "account_store \<Rightarrow> user \<Rightarrow> error + account_store" where
  "user_insert s u =
     (if list_ex (\<lambda>x. user_id x = user_id u \<or> email x = email u \<or> username x = username u)
           (users s)
      then Inl IntegrityError
      else Inr (s\<lparr>users := users s @ [u]\<rparr>))"

definition profile_insert :: "account_store \<Rightarrow> user_profile \<Rightarrow> error + account_store" where
  "profile_insert s p =
     (if list_ex (\<lambda>q. profile_user q = profile_user p) (user_profiles s)
         \<or> \<not> list_ex (\<lambda>x. user_id x = profile_user p) (users s)
      then Inl IntegrityError
      else Inr (s\<lparr>user_profiles := user_profiles s @ [p]\<rparr>))"

definition settings_insert :: "account_store \<Rightarrow> user_settings \<Rightarrow> error + account_store" where
  "settings_insert s t =
     (if list_ex (\<lambda>q. settings_user q = settings_user t) (user_settings_rows s)
         \<or> \<not> list_ex (\<lambda>x. user_id x = settings_user t) (users s)
      then Inl IntegrityError
      else Inr (s\<lparr>user_settings_rows := user_settings_rows s @ [t]\<rparr>))"








section \<open>Serializers: accounts/serializers.py\<close>

text \<open>
  A serializer validates in two stages.  First every field is validated on its own, in
  the order of the declaration: the checks of the field's class and its
  \<^verbatim>\<open>validators\<close>, then the serializer's \<^verbatim>\<open>validate_<field>\<close> method when there is
  one and the field passed so far.  The messages of all failing fields are collected and
  raised together.  Only when no field failed does the serializer's \<^verbatim>\<open>validate\<close>
  method run on the validated values.  \<^verbatim>\<open>save\<close> is refused unless validation
  succeeded.  An exception that is not a validation error ends the request where it is
  raised.

  The record of a request holds the values of the payload as they arrive; \<open>None\<close> is a
  key that the payload does not have.  The result of validating one field is either its
  messages or the validated value.
\<close>

type_synonym 'a checked = "string list + 'a"

definition and_then :: "'e + 'a \<Rightarrow> ('a \<Rightarrow> 'e + 'b) \<Rightarrow> 'e + 'b" where
  "and_then r f = (case r of Inl e \<Rightarrow> Inl e | Inr v \<Rightarrow> f v)"

text \<open>
  \<^verbatim>\<open>CharField\<close>: a value is blank when it is empty or empty once trimmed
  (\<^verbatim>\<open>trim_whitespace\<close> is on by default), and the validated value is the trimmed
  one.  With \<^verbatim>\<open>required=True\<close> the key must be there and the value not blank.
\<close>

definition is_blank :: "framework \<Rightarrow> string \<Rightarrow> bool" where
  "is_blank fw x = (x = [] \<or> str_strip fw x = [])"

definition required_field :: "framework \<Rightarrow> string option \<Rightarrow> string checked" where
  "required_field fw v =
     (case v of
        None \<Rightarrow> Inl [''This field is required.'']
      | Some x \<Rightarrow>
          if is_blank fw x then Inl [''This field may not be blank.'']
          else Inr (str_strip fw x))"

text \<open>
  The validators of a field all run, and the field fails with the messages of all of
  them.
\<close>

definition run_validators :: "(string \<Rightarrow> string list) list \<Rightarrow> string \<Rightarrow> string checked" where
  "run_validators vs x =
     (let msgs = concat (map (\<lambda>v. v x) vs) in if msgs = [] then Inr x else Inl msgs)"

fun show_nat :: "nat \<Rightarrow> string" where
  "show_nat n =
     (if n < 10 then [char_of (48 + n)] else show_nat (n div 10) @ [char_of (48 + n mod 10)])"

definition max_length :: "nat \<Rightarrow> string \<Rightarrow> string list" where
  "max_length n x =
     (if str_len x \<le> n then []
      else [''Ensure this field has no more than '' @ show_nat n @ '' characters.''])"

definition email_validator :: "framework \<Rightarrow> string \<Rightarrow> string list" where
  "email_validator fw x = (if valid_email fw x then [] else [''Enter a valid email address.''])"

text \<open>\<^verbatim>\<open>UniqueValidator(queryset=User.objects.all())\<close>: an exact match on the column.\<close>

definition unique_email :: "account_store \<Rightarrow> string \<Rightarrow> string list" where
  "unique_email s x =
     (if list_ex (\<lambda>u. email u = x) (users s) then [''This field must be unique.''] else [])"

definition unique_username :: "account_store \<Rightarrow> string \<Rightarrow> string list" where
  "unique_username s x =
     (if list_ex (\<lambda>u. username u = x) (users s) then [''This field must be unique.''] else [])"

text \<open>
  The validator of \<^verbatim>\<open>User.phone_number\<close>: a \<^verbatim>\<open>RegexValidator\<close> with the
  pattern below, which fails when the pattern is not found in the value.
\<close>

definition phone_pattern :: string where
  "phone_pattern = [CHR ''^'', CHR 0x5C, CHR ''+'', CHR ''?'', CHR ''1'', CHR ''?'', CHR 0x5C,
     CHR ''d'', CHR ''{'', CHR ''9'', CHR '','', CHR ''1'', CHR ''5'', CHR ''}'', CHR ''$'']"

definition phone_regex :: "framework \<Rightarrow> string \<Rightarrow> string list" where
  "phone_regex fw x =
     (if regex_search fw phone_pattern x then []
      else [''Phone number must be entered in the format: '+999999999'. Up to 15 digits allowed.''])"

definition field_error :: "string \<Rightarrow> 'a checked \<Rightarrow> (string \<times> string list) list" where
  "field_error name r = (case r of Inl msgs \<Rightarrow> [(name, msgs)] | Inr v \<Rightarrow> [])"

definition with_field :: "'a checked \<Rightarrow> error \<Rightarrow> ('a \<Rightarrow> error + 'b) \<Rightarrow> error + 'b" where
  "with_field r err k = (case r of Inl msgs \<Rightarrow> Inl err | Inr v \<Rightarrow> k v)"

text \<open>
  A character field of the model that is not required: a missing key is left out of the
  validated data, a blank value is refused.
\<close>

definition optional_field ::
  "framework \<Rightarrow> (string \<Rightarrow> string list) list \<Rightarrow> string option \<Rightarrow> string option checked" where
  "optional_field fw vs v =
     (case v of
        None \<Rightarrow> Inr None
      | Some x \<Rightarrow>
          if is_blank fw x then Inl [''This field may not be blank.'']
          else and_then (run_validators vs (str_strip fw x)) (\<lambda>y. Inr (Some y)))"

subsection \<open>UserRegistrationSerializer\<close>

record registration_data =
  reg_email :: "string option"
  reg_password :: "string option"
  reg_password_confirm :: "string option"
  reg_first_name :: "string option"
  reg_last_name :: "string option"
  reg_username :: "string option"
  reg_user_type :: "string option"
  reg_phone_number :: "string option"
  reg_timezone :: "string option"
  reg_language :: "string option"

text \<open>
  The validated data.  A key that the payload leaves out is absent here as well, except
  \<^verbatim>\<open>user_type\<close>, whose field declares a default.
\<close>

record registration_attrs =
  attrs_email :: string
  attrs_password :: string
  attrs_password_confirm :: string
  attrs_first_name :: string
  attrs_last_name :: string
  attrs_username :: string
  attrs_user_type :: string
  attrs_phone_number :: "string option"
  attrs_timezone :: "string option"
  attrs_language :: "string option"

definition validate_email :: "framework \<Rightarrow> account_store \<Rightarrow> string \<Rightarrow> string checked" where
  "validate_email fw s v =
     (if list_ex (\<lambda>u. iexact fw (email u) v) (users s)
      then Inl [''A user with this email already exists.'']
      else Inr (str_lower fw v))"

definition validate_username :: "framework \<Rightarrow> account_store \<Rightarrow> string \<Rightarrow> string checked" where
  "validate_username fw s v =
     (if list_ex (\<lambda>u. iexact fw (username u) v) (users s)
      then Inl [''A user with this username already exists.'']
      else Inr v)"

definition registration_validate :: "registration_attrs \<Rightarrow> error + registration_attrs" where
  "registration_validate attrs =
     (if attrs_password attrs \<noteq> attrs_password_confirm attrs
      then Inl (ValidationError [(''password'', [''Password fields didn't match.''])])
      else Inr attrs)"

text \<open>\<^verbatim>\<open>ChoiceField(choices=User.USER_TYPES, default='creator')\<close>.\<close>

definition user_type_field :: "string option \<Rightarrow> string checked" where
  \<open>user_type_field v =
     (case v of
        None \<Rightarrow> Inr ''creator''
      | Some x \<Rightarrow>
          if x \<in> set (map fst USER_TYPES) then Inr x
          else Inl [''"'' @ x @ ''" is not a valid choice.''])\<close>

text \<open>
  \<^verbatim>\<open>phone_number\<close> is nullable and may be blank; a blank value is stored as the empty
  string and its validators do not run.
\<close>

definition phone_number_field :: "framework \<Rightarrow> string option \<Rightarrow> string option checked" where
  "phone_number_field fw v =
     (case v of
        None \<Rightarrow> Inr None
      | Some x \<Rightarrow>
          if is_blank fw x then Inr (Some [])
          else and_then (run_validators [phone_regex fw, max_length 17] (str_strip fw x))
                 (\<lambda>y. Inr (Some y)))"

text \<open>
  The fields with validators: \<^verbatim>\<open>email\<close> (declared with a \<^verbatim>\<open>UniqueValidator\<close>,
  then \<^verbatim>\<open>validate_email\<close>), \<^verbatim>\<open>password\<close> (declared with
  \<^verbatim>\<open>validate_password\<close>), the two names (\<^verbatim>\<open>max_length=30\<close>) and
  \<^verbatim>\<open>username\<close> (required by \<^verbatim>\<open>extra_kwargs\<close>, with the validators and the
  uniqueness of the model column, then \<^verbatim>\<open>validate_username\<close>).
\<close>

definition email_field :: "framework \<Rightarrow> account_store \<Rightarrow> string option \<Rightarrow> string checked" where
  "email_field fw s v =
     and_then (and_then (required_field fw v) (run_validators [unique_email s, email_validator fw]))
       (validate_email fw s)"

definition password_field :: "framework \<Rightarrow> string option \<Rightarrow> string checked" where
  "password_field fw v = and_then (required_field fw v) (run_validators [validate_password fw])"

definition name_field :: "framework \<Rightarrow> string option \<Rightarrow> string checked" where
  "name_field fw v = and_then (required_field fw v) (run_validators [max_length 30])"

definition username_field :: "framework \<Rightarrow> account_store \<Rightarrow> string option \<Rightarrow> string checked" where
  "username_field fw s v =
     and_then (and_then (required_field fw v)
                 (run_validators [valid_username fw, unique_username s]))
       (validate_username fw s)"

definition registration_to_internal_value ::
  "framework \<Rightarrow> account_store \<Rightarrow> registration_data \<Rightarrow> error + registration_attrs" where
  "registration_to_internal_value fw s d =
     (let e = email_field fw s (reg_email d);
          p = password_field fw (reg_password d);
          c = required_field fw (reg_password_confirm d);
          f = name_field fw (reg_first_name d);
          l = name_field fw (reg_last_name d);
          n = username_field fw s (reg_username d);
          t = user_type_field (reg_user_type d);
          ph = phone_number_field fw (reg_phone_number d);
          tz = optional_field fw [max_length 50] (reg_timezone d);
          lg = optional_field fw [max_length 10] (reg_language d);
          err = ValidationError
                  (field_error ''email'' e @ field_error ''password'' p
                   @ field_error ''password_confirm'' c @ field_error ''first_name'' f
                   @ field_error ''last_name'' l @ field_error ''username'' n
                   @ field_error ''user_type'' t @ field_error ''phone_number'' ph
                   @ field_error ''timezone'' tz @ field_error ''language'' lg)
      in with_field e err (\<lambda>ev. with_field p err (\<lambda>pv. with_field c err (\<lambda>cv.
         with_field f err (\<lambda>fv. with_field l err (\<lambda>lv. with_field n err (\<lambda>nv.
         with_field t err (\<lambda>tv. with_field ph err (\<lambda>phv. with_field tz err (\<lambda>tzv.
         with_field lg err (\<lambda>lgv.
           Inr \<lparr>attrs_email = ev, attrs_password = pv, attrs_password_confirm = cv,
                attrs_first_name = fv, attrs_last_name = lv, attrs_username = nv,
                attrs_user_type = tv, attrs_phone_number = phv, attrs_timezone = tzv,
                attrs_language = lgv\<rparr>)))))))))))"

definition registration_is_valid ::
  "framework \<Rightarrow> account_store \<Rightarrow> registration_data \<Rightarrow> error + registration_attrs" where
  "registration_is_valid fw s d =
     and_then (registration_to_internal_value fw s d) registration_validate"

text \<open>
  \<^verbatim>\<open>UserManager.normalize_email\<close>: the address is trimmed and split at its last at
  sign, and the domain part is lower-cased; an address without an at sign is returned
  as it came.
\<close>

definition rsplit_at :: "string \<Rightarrow> (string \<times> string) option" where
  "rsplit_at x =
     (let r = rev x;
          domain = takeWhile (\<lambda>c. c \<noteq> CHR ''@'') r;
          rest = dropWhile (\<lambda>c. c \<noteq> CHR ''@'') r
      in case rest of [] \<Rightarrow> None | c # name \<Rightarrow> Some (rev name, rev domain))"

definition normalize_email :: "framework \<Rightarrow> string \<Rightarrow> string" where
  "normalize_email fw e =
     (case rsplit_at (str_strip fw e) of
        None \<Rightarrow> e
      | Some (name, domain) \<Rightarrow> name @ ''@'' @ str_lower fw domain)"

text \<open>
  \<^verbatim>\<open>create\<close>.  The two password entries are popped and \<^verbatim>\<open>create_user\<close> is
  called with the remaining entries.  It raises \<^verbatim>\<open>ValueError\<close> on an empty username,
  normalises the email and the username, builds the user from them, the hashed password
  and the defaults of the columns (the key is the fresh value \<open>uid\<close> of
  \<^verbatim>\<open>uuid.uuid4\<close>) and inserts it; then a profile and a settings row are inserted for
  it.  The three inserts are three statements with no enclosing transaction: when one of
  them raises, what the earlier ones wrote stays.
\<close>

definition new_user :: "framework \<Rightarrow> datetime \<Rightarrow> key \<Rightarrow> registration_attrs \<Rightarrow> user" where
  "new_user fw now uid attrs =
     \<lparr>user_id = uid,
      email = normalize_email fw (attrs_email attrs),
      username = normalize_username fw (attrs_username attrs),
      first_name = attrs_first_name attrs,
      last_name = attrs_last_name attrs,
      password = make_password fw (attrs_password attrs),
      is_active = True,
      user_type = attrs_user_type attrs,
      is_verified = False,
      is_premium = False,
      premium_expires_at = None,
      created_at = now,
      updated_at = now,
      last_active = now,
      phone_number = attrs_phone_number attrs,
      timezone = (case attrs_timezone attrs of None \<Rightarrow> ''UTC'' | Some z \<Rightarrow> z),
      language = (case attrs_language attrs of None \<Rightarrow> ''en'' | Some z \<Rightarrow> z)\<rparr>"

definition new_profile :: "datetime \<Rightarrow> key \<Rightarrow> user_profile" where
  "new_profile now uid =
     \<lparr>profile_user = uid, bio = [], avatar = None, location = [], website = [],
      profile_privacy_level = ''public'', total_parties_created = 0,
      total_parties_attended = 0, profile_created_at = now, profile_updated_at = now\<rparr>"

definition create ::
  "framework \<Rightarrow> datetime \<Rightarrow> key \<Rightarrow> account_store \<Rightarrow> registration_attrs
     \<Rightarrow> (error + user) \<times> account_store" where
  "create fw now uid s attrs =
     (if attrs_username attrs = [] then (Inl ValueError, s)
      else
        (let u = new_user fw now uid attrs
         in case user_insert s u of
              Inl e \<Rightarrow> (Inl e, s)
            | Inr s1 \<Rightarrow>
                (case profile_insert s1 (new_profile now uid) of
                   Inl e \<Rightarrow> (Inl e, s1)
                 | Inr s2 \<Rightarrow>
                     (case settings_insert s2 \<lparr>settings_user = uid\<rparr> of
                        Inl e \<Rightarrow> (Inl e, s2)
                      | Inr s3 \<Rightarrow> (Inr u, s3)))))"

text \<open>Registration: \<^verbatim>\<open>is_valid()\<close>, then \<^verbatim>\<open>save()\<close>, which calls \<^verbatim>\<open>create\<close>.\<close>

definition register ::
  "framework \<Rightarrow> datetime \<Rightarrow> key \<Rightarrow> account_store \<Rightarrow> registration_data
     \<Rightarrow> (error + user) \<times> account_store" where
  "register fw now uid s d =
     (case registration_is_valid fw s d of
        Inl e \<Rightarrow> (Inl e, s)
      | Inr attrs \<Rightarrow> create fw now uid s attrs)"

subsection \<open>UserLoginSerializer\<close>










subsection \<open>PasswordChangeSerializer\<close>











text \<open>
  An operation is rejected when it raises a validation error.
\<close>

definition rejected :: "(error + 'a) \<times> 's \<Rightarrow> bool" where
  "rejected r =
     (case fst r of
        Inl (ValidationError errs) \<Rightarrow> True
      | Inl e \<Rightarrow> False
      | Inr v \<Rightarrow> False)"

section \<open>Sample data\<close>

text \<open>
  Concrete values on which the theorems below are instantiated.  The sample platform
  folds the letters \<^verbatim>\<open>A\<close> to \<^verbatim>\<open>Z\<close> and trims the white space of ASCII, as
  Python does on ASCII text; it compares case-insensitively by folding, leaves user names
  as they are, and matches the phone pattern on ASCII digits.  It accepts an address with
  an at sign and any user name, has a password policy with one rule (at least eight
  characters), marks a hashed password with a prefix, knows one outdated encoding with
  another prefix, and lets active users authenticate.
\<close>

definition ascii_lower_char :: "char \<Rightarrow> char" where
  "ascii_lower_char c =
     (let n = (of_char c :: nat) in if 65 \<le> n \<and> n \<le> 90 then char_of (n + 32) else c)"

definition ascii_lower :: "string \<Rightarrow> string" where
  "ascii_lower v = map ascii_lower_char v"

definition is_space :: "char \<Rightarrow> bool" where
  "is_space c = (let n = (of_char c :: nat) in n = 32 \<or> (9 \<le> n \<and> n \<le> 13))"

definition ascii_strip :: "string \<Rightarrow> string" where
  "ascii_strip v = rev (dropWhile is_space (rev (dropWhile is_space v)))"

definition is_digit :: "char \<Rightarrow> bool" where
  "is_digit c = (let n = (of_char c :: nat) in 48 \<le> n \<and> n \<le> 57)"

definition digits_9_15 :: "string \<Rightarrow> bool" where
  "digits_9_15 x = (list_all is_digit x \<and> 9 \<le> length x \<and> length x \<le> 15)"

definition ascii_phone_match :: "string \<Rightarrow> bool" where
  "ascii_phone_match x =
     (let y = (case x of c # r \<Rightarrow> if c = CHR ''+'' then r else x | [] \<Rightarrow> x)
      in digits_9_15 y \<or> (case y of c # r \<Rightarrow> c = CHR ''1'' \<and> digits_9_15 r | [] \<Rightarrow> False))"

definition sample_framework :: framework where
  "sample_framework =
     \<lparr>str_lower = ascii_lower,
      str_strip = ascii_strip,
      iexact = (\<lambda>a b. ascii_lower a = ascii_lower b),
      normalize_username = (\<lambda>x. x),
      regex_search = (\<lambda>p x. ascii_phone_match x),
      valid_email = (\<lambda>x. CHR ''@'' \<in> set x),
      valid_username = (\<lambda>x. []),
      validate_password =
        (\<lambda>x. if str_len x < 8
             then [''This password is too short. It must contain at least 8 characters.'']
             else []),
      make_password = (\<lambda>x. ''plain$'' @ x),
      verify_password = (\<lambda>raw enc. enc = ''plain$'' @ raw \<or> enc = ''old$'' @ raw),
      must_update = (\<lambda>enc. take 4 enc = ''old$''),
      user_can_authenticate = is_active\<rparr>"

definition party0 :: party where
  "party0 =
     \<lparr>party_id = 1, title = ''Launch'', slug = ''launch'', host = 7,
      start_date = 100, end_date = 200, rsvp_deadline = Some 90,
      privacy_level = ''private'', status = ''draft'', rsvp_type = ''open'',
      max_attendees = None\<rparr>"

definition rsvp0 :: party_rsvp where
  "rsvp0 =
     \<lparr>rsvp_party = 1, rsvp_user = 7, rsvp_status = ''attending'', plus_ones = 0,
      message = [], dietary_restrictions = [], approved_by_host = False,
      checked_in = False, checked_in_at = None\<rparr>"

definition like0 :: party_like where
  "like0 = \<lparr>like_party = 1, like_user = 7\<rparr>"

definition user0 :: user where
  "user0 =
     \<lparr>user_id = 1, email = ''ann@example.org'', username = ''ann'', first_name = ''Ann'',
      last_name = ''Lee'', password = ''plain$oldsecret1'', is_active = True,
      user_type = ''creator'', is_verified = False, is_premium = True,
      premium_expires_at = Some 500, created_at = 0, updated_at = 0, last_active = 0,
      phone_number = None, timezone = ''UTC'', language = ''en''\<rparr>"

definition store0 :: account_store where
  "store0 =
     \<lparr>users = [user0], user_profiles = [new_profile 0 1],
      user_settings_rows = [\<lparr>settings_user = 1\<rparr>]\<rparr>"


definition reg0 :: registration_data where
  "reg0 =
     \<lparr>reg_email = Some ''Bob@Example.org'', reg_password = Some ''s3cretpass'',
      reg_password_confirm = Some ''s3cretpass'', reg_first_name = Some ''Bob'',
      reg_last_name = Some ''Ray'', reg_username = Some ''bob'', reg_user_type = None,
      reg_phone_number = Some ''+15550001111'', reg_timezone = None,
      reg_language = Some ''en''\<rparr>"

text \<open>The user that \<open>reg0\<close> registers at time 10 under key 2.\<close>

definition user_bob :: user where
  "user_bob =
     \<lparr>user_id = 2, email = ''bob@example.org'', username = ''bob'', first_name = ''Bob'',
      last_name = ''Ray'', password = ''plain$s3cretpass'', is_active = True,
      user_type = ''creator'', is_verified = False, is_premium = False,
      premium_expires_at = None, created_at = 10, updated_at = 10, last_active = 10,
      phone_number = Some ''+15550001111'', timezone = ''UTC'', language = ''en''\<rparr>"







definition reg_spaced :: registration_data where
  "reg_spaced = reg0\<lparr>reg_password := Some ''s3cretpass ''\<rparr>"

text \<open>The tables after \<open>user_bob\<close> has been registered on \<open>store0\<close>.\<close>

definition store0_bob :: account_store where
  "store0_bob =
     \<lparr>users = [user0, user_bob], user_profiles = [new_profile 0 1, new_profile 10 2],
      user_settings_rows = [\<lparr>settings_user = 1\<rparr>, \<lparr>settings_user = 2\<rparr>]\<rparr>"







section \<open>Derived properties\<close>

text \<open>
  Claim C1.  For every party and every current time, \<open>can_rsvp\<close> is false when
  \<open>rsvp_type\<close> is \<^verbatim>\<open>closed\<close>; false when a deadline is set and the current time is
  strictly after it; false when the party is past, that is, when its \<open>end_date\<close> is
  strictly before the current time; and true in every other case.
\<close>

theorem can_rsvp_cases:
  "(rsvp_type p = ''closed'' \<longrightarrow> \<not> can_rsvp now p) \<and>
   (\<forall>d. rsvp_deadline p = Some d \<and> d < now \<longrightarrow> \<not> can_rsvp now p) \<and>
   (end_date p < now \<longrightarrow> \<not> can_rsvp now p) \<and>
   (rsvp_type p \<noteq> ''closed'' \<and> (\<forall>d. rsvp_deadline p = Some d \<longrightarrow> \<not> d < now) \<and>
      \<not> end_date p < now \<longrightarrow> can_rsvp now p)"
  by (auto simp: can_rsvp_def is_past_def split: option.splits)

theorem can_rsvp_cases_witness:
  "\<not> can_rsvp 50 (party0\<lparr>rsvp_type := ''closed''\<rparr>) \<and>
   \<not> can_rsvp 95 party0 \<and>
   \<not> can_rsvp 201 (party0\<lparr>rsvp_deadline := None\<rparr>) \<and>
   can_rsvp 90 party0 \<and> can_rsvp 200 (party0\<lparr>rsvp_deadline := None\<rparr>)"
  using can_rsvp_cases [where p = "party0\<lparr>rsvp_type := ''closed''\<rparr>" and now = 50]
    can_rsvp_cases [where p = party0 and now = 95]
    can_rsvp_cases [where p = "party0\<lparr>rsvp_deadline := None\<rparr>" and now = 201]
    can_rsvp_cases [where p = party0 and now = 90]
    can_rsvp_cases [where p = "party0\<lparr>rsvp_deadline := None\<rparr>" and now = 200]
  by (simp add: party0_def)

text \<open>
  Claim C10.  \<open>can_rsvp\<close> does not read the \<open>status\<close> column: giving a party any
  other status leaves the answer as it is.  So a party whose \<open>rsvp_type\<close> is not
  \<^verbatim>\<open>closed\<close>, whose deadline (if any) has not passed and whose \<open>end_date\<close> is in the
  future accepts RSVPs also when its status is \<^verbatim>\<open>draft\<close> or \<^verbatim>\<open>cancelled\<close>.
\<close>

theorem can_rsvp_ignores_status:
  "can_rsvp now (p\<lparr>status := st\<rparr>) = can_rsvp now p \<and>
   (rsvp_type p \<noteq> ''closed'' \<and> (\<forall>d. rsvp_deadline p = Some d \<longrightarrow> \<not> d < now) \<and>
      now < end_date p \<longrightarrow>
      can_rsvp now (p\<lparr>status := ''draft''\<rparr>) \<and> can_rsvp now (p\<lparr>status := ''cancelled''\<rparr>))"
  by (auto simp: can_rsvp_def is_past_def split: option.splits)

theorem can_rsvp_ignores_status_witness:
  "can_rsvp 80 (party0\<lparr>status := ''draft''\<rparr>) \<and>
   can_rsvp 80 (party0\<lparr>status := ''cancelled''\<rparr>)"
  using can_rsvp_ignores_status [where now = 80 and p = party0 and st = "''draft''"]
  by (simp add: party0_def)

text \<open>
  Claim C2.  For every user and every current time, \<open>is_premium_active\<close> is false when
  \<open>is_premium\<close> is false; when \<open>is_premium\<close> is true and an expiry is set, it is true
  exactly when the current time is strictly before the expiry; when \<open>is_premium\<close> is
  true and no expiry is set, it is true.
\<close>

theorem is_premium_active_cases:
  "(\<not> is_premium u \<longrightarrow> \<not> is_premium_active now u) \<and>
   (\<forall>e. is_premium u \<and> premium_expires_at u = Some e \<longrightarrow>
        (is_premium_active now u \<longleftrightarrow> now < e)) \<and>
   (is_premium u \<and> premium_expires_at u = None \<longrightarrow> is_premium_active now u)"
  by (simp add: is_premium_active_def)

theorem is_premium_active_cases_witness:
  "\<not> is_premium_active 10 (user0\<lparr>is_premium := False\<rparr>) \<and>
   is_premium_active 499 user0 \<and> \<not> is_premium_active 500 user0 \<and>
   is_premium_active 500 (user0\<lparr>premium_expires_at := None\<rparr>)"
  using is_premium_active_cases [where u = "user0\<lparr>is_premium := False\<rparr>" and now = 10]
    is_premium_active_cases [where u = user0 and now = 499]
    is_premium_active_cases [where u = user0 and now = 500]
    is_premium_active_cases [where u = "user0\<lparr>premium_expires_at := None\<rparr>" and now = 500]
  by (simp add: user0_def)

subsection \<open>Counting attendees\<close>

lemma filter_update_count:
  assumes "i < length xs"
  shows "length (filter P (xs[i := y])) + (if P (xs ! i) then 1 else 0) =
         length (filter P xs) + (if P y then 1 else 0)"
proof -
  have a: "xs[i := y] = take i xs @ y # drop (Suc i) xs"
    using assms by (rule upd_conv_take_nth_drop)
  have b: "xs = take i xs @ xs ! i # drop (Suc i) xs"
    using assms by (rule id_take_nth_drop)
  have "length (filter P xs) = length (filter P (take i xs @ xs ! i # drop (Suc i) xs))"
    using b by simp
  then show ?thesis unfolding a by simp
qed

lemma attendee_count_filter:
  "attendee_count s p =
     length (filter (\<lambda>r. rsvp_party r = party_id p \<and> rsvp_status r = ''attending'')
               (party_rsvps s))"
  by (simp add: attendee_count_def rsvps_def conj_commute)

lemma attendee_count_card:
  "attendee_count s p =
     card {i. i < length (party_rsvps s) \<and> rsvp_party (party_rsvps s ! i) = party_id p \<and>
              rsvp_status (party_rsvps s ! i) = ''attending''}"
  by (simp add: attendee_count_def rsvps_def length_filter_conv_card conj_ac)

lemma attendee_count_update:
  assumes "i < length (party_rsvps s)" and "rsvp_party (party_rsvps s ! i) = party_id p"
  shows "attendee_count (set_rsvp_status s i st) p
           + (if rsvp_status (party_rsvps s ! i) = ''attending'' then 1 else 0)
         = attendee_count s p + (if st = ''attending'' then 1 else 0)"
  using filter_update_count [OF assms(1),
      of "\<lambda>r. rsvp_party r = party_id p \<and> rsvp_status r = ''attending''"
         "(party_rsvps s ! i)\<lparr>rsvp_status := st\<rparr>"] assms
  by (simp add: attendee_count_filter set_rsvp_status_def)

text \<open>
  Claim C3.  For every party and every state of the RSVP table, \<open>attendee_count\<close> is
  the number of rows of the table that belong to the party and have status
  \<^verbatim>\<open>attending\<close>.  It is a function of the table as it is when it is read, so it
  follows a change of status: when the status of a row of the party is changed, the count
  read afterwards has lost the row if it was attending and gained it if it now is.
\<close>

theorem attendee_count_counts:
  "attendee_count s p =
     card {i. i < length (party_rsvps s) \<and> rsvp_party (party_rsvps s ! i) = party_id p \<and>
              rsvp_status (party_rsvps s ! i) = ''attending''} \<and>
   (i < length (party_rsvps s) \<and> rsvp_party (party_rsvps s ! i) = party_id p \<longrightarrow>
      attendee_count (set_rsvp_status s i st) p
        + (if rsvp_status (party_rsvps s ! i) = ''attending'' then 1 else 0)
      = attendee_count s p + (if st = ''attending'' then 1 else 0))"
  using attendee_count_card attendee_count_update by blast

theorem attendee_count_counts_witness:
  "attendee_count \<lparr>party_rsvps = [rsvp0], party_likes = []\<rparr> party0 = 1 \<and>
   attendee_count
     (set_rsvp_status \<lparr>party_rsvps = [rsvp0], party_likes = []\<rparr> 0 ''maybe'') party0 = 0"
proof -
  let ?s = "\<lparr>party_rsvps = [rsvp0], party_likes = []\<rparr>"
  have c: "{i. i < length (party_rsvps ?s) \<and> rsvp_party (party_rsvps ?s ! i) = party_id party0 \<and>
              rsvp_status (party_rsvps ?s ! i) = ''attending''} = {0}"
    by (auto simp: rsvp0_def party0_def)
  have h: "0 < length (party_rsvps ?s) \<and> rsvp_party (party_rsvps ?s ! 0) = party_id party0"
    by (simp add: rsvp0_def party0_def)
  have st: "rsvp_status (party_rsvps ?s ! 0) = ''attending''"
    by (simp add: rsvp0_def)
  note t = attendee_count_counts [where s = ?s and p = party0 and i = 0 and st = "''maybe''"]
  from t have one: "attendee_count ?s party0 = 1"
    unfolding c by simp
  from t h have "attendee_count (set_rsvp_status ?s 0 ''maybe'') party0
        + (if rsvp_status (party_rsvps ?s ! 0) = ''attending'' then 1 else 0)
      = attendee_count ?s party0 + (if ''maybe'' = ''attending'' then 1 else 0)"
    by blast
  then have "attendee_count (set_rsvp_status ?s 0 ''maybe'') party0 = 0"
    unfolding one st by simp
  with one show ?thesis by simp
qed

subsection \<open>One RSVP and one like for each party and user\<close>

lemma distinct_map_remove_nth:
  assumes "distinct (map f xs)"
  shows "distinct (map f (remove_nth i xs))"
proof -
  let ?ys = "map f xs"
  have "set (take i ?ys) \<inter> set (drop (Suc i) ?ys) = {}"
    using assms by (intro set_take_disj_set_drop_if_distinct) simp_all
  moreover have "distinct (take i ?ys)" and "distinct (drop (Suc i) ?ys)"
    using assms by (rule distinct_take, rule distinct_drop)
  ultimately have "distinct (take i ?ys @ drop (Suc i) ?ys)"
    by (simp only: distinct_append)
  then show ?thesis
    by (simp add: remove_nth_def take_map drop_map)
qed

lemma distinct_map_update:
  assumes "distinct (map f xs)" and "i < length xs"
    and "\<forall>j < length xs. j \<noteq> i \<longrightarrow> f (xs ! j) \<noteq> f y"
  shows "distinct (map f (xs[i := y]))"
  using assms by (auto simp: distinct_conv_nth nth_list_update)

lemma rsvp_create_unique:
  "unique_pairs s \<Longrightarrow> rsvp_create s r = Inr s' \<Longrightarrow> unique_pairs s'"
  by (fastforce simp: unique_pairs_def rsvp_create_def list_ex_iff split: if_splits)

lemma like_create_unique:
  "unique_pairs s \<Longrightarrow> like_create s l = Inr s' \<Longrightarrow> unique_pairs s'"
  by (fastforce simp: unique_pairs_def like_create_def list_ex_iff split: if_splits)

lemma rsvp_save_unique:
  assumes "unique_pairs s" and "rsvp_save s i r = Inr s'"
  shows "unique_pairs s'"
proof (cases "i < length (party_rsvps s)")
  case False
  with assms show ?thesis by (simp add: rsvp_save_def)
next
  case True
  with assms(2)
  have ok: "\<forall>j < length (party_rsvps s). j \<noteq> i \<longrightarrow>
              rsvp_pair (party_rsvps s ! j) \<noteq> rsvp_pair r"
    and s': "s' = s\<lparr>party_rsvps := (party_rsvps s)[i := r]\<rparr>"
    by (auto simp: rsvp_save_def list_ex_iff split: if_splits)
  from assms(1) have "distinct (map rsvp_pair (party_rsvps s))"
    by (simp add: unique_pairs_def)
  from distinct_map_update [OF this True ok] assms(1) show ?thesis
    by (simp add: s' unique_pairs_def)
qed

lemma apply_op_unique:
  assumes "unique_pairs s" and "apply_op s x = Inr s'"
  shows "unique_pairs s'"
proof (cases x)
  case (CreateRSVP r)
  with assms show ?thesis using rsvp_create_unique by simp
next
  case (SaveRSVP i r)
  with assms show ?thesis using rsvp_save_unique by simp
next
  case (DeleteRSVP i)
  with assms show ?thesis by (auto simp: unique_pairs_def distinct_map_remove_nth)
next
  case (CreateLike l)
  with assms show ?thesis using like_create_unique by simp
next
  case (DeleteLike i)
  with assms show ?thesis by (auto simp: unique_pairs_def distinct_map_remove_nth)
next
  case (DeleteParty k)
  with assms show ?thesis by (auto simp: unique_pairs_def distinct_map_filter)
next
  case (DeleteUser k)
  with assms show ?thesis by (auto simp: unique_pairs_def distinct_map_filter)
qed

lemma run_ops_unique: "unique_pairs s \<Longrightarrow> unique_pairs (run_ops s xs)"
proof (induction xs arbitrary: s)
  case Nil
  then show ?case by simp
next
  case (Cons x xs)
  have "unique_pairs (case apply_op s x of Inl e \<Rightarrow> s | Inr s' \<Rightarrow> s')"
    using Cons.prems apply_op_unique by (cases "apply_op s x") auto
  then show ?case using Cons.IH by simp
qed

lemma unique_pairs_empty: "unique_pairs empty_store"
  by (simp add: unique_pairs_def empty_store_def)

lemma run_ops_sample:
  "run_ops empty_store [CreateRSVP rsvp0, CreateLike like0] =
     \<lparr>party_rsvps = [rsvp0], party_likes = [like0]\<rparr>"
  by (simp add: empty_store_def rsvp_create_def like_create_def)

text \<open>
  Claim C8.  In every state of the tables that a history of writes reaches from the
  empty tables, no two RSVP rows have the same pair of party and user, and no two like
  rows have the same pair; creating an RSVP for a pair that already has one is rejected
  with an integrity error, and so is creating a second like for a pair.
\<close>

theorem one_rsvp_and_like_per_pair:
  "distinct (map rsvp_pair (party_rsvps (run_ops empty_store xs))) \<and>
   distinct (map like_pair (party_likes (run_ops empty_store xs))) \<and>
   (\<forall>r. rsvp_pair r \<in> set (map rsvp_pair (party_rsvps (run_ops empty_store xs))) \<longrightarrow>
        rsvp_create (run_ops empty_store xs) r = Inl IntegrityError) \<and>
   (\<forall>l. like_pair l \<in> set (map like_pair (party_likes (run_ops empty_store xs))) \<longrightarrow>
        like_create (run_ops empty_store xs) l = Inl IntegrityError)"
proof -
  have "unique_pairs (run_ops empty_store xs)"
    using unique_pairs_empty by (rule run_ops_unique)
  then show ?thesis
    by (auto simp: unique_pairs_def rsvp_create_def like_create_def list_ex_iff)
qed

theorem one_rsvp_and_like_per_pair_witness:
  "rsvp_create (run_ops empty_store [CreateRSVP rsvp0, CreateLike like0])
      (rsvp0\<lparr>rsvp_status := ''maybe''\<rparr>) = Inl IntegrityError \<and>
   like_create (run_ops empty_store [CreateRSVP rsvp0, CreateLike like0]) like0
      = Inl IntegrityError"
  using one_rsvp_and_like_per_pair [of "[CreateRSVP rsvp0, CreateLike like0]"]
  unfolding run_ops_sample by (auto simp: rsvp_pair_def like_pair_def rsvp0_def)

section \<open>Registration\<close>

subsection \<open>Field validation\<close>

lemma find_SomeD: "find P xs = Some x \<Longrightarrow> x \<in> set xs \<and> P x"
  by (induction xs) (auto split: if_splits)

lemma required_field_iff:
  "required_field fw v = Inr y \<longleftrightarrow> (\<exists>x. v = Some x \<and> \<not> is_blank fw x \<and> y = str_strip fw x)"
  by (auto simp: required_field_def split: option.splits)





lemma password_field_iff:
  "password_field fw v = Inr y \<longleftrightarrow>
     (\<exists>x. v = Some x \<and> \<not> is_blank fw x \<and> y = str_strip fw x \<and>
          validate_password fw (str_strip fw x) = [])"
  by (auto simp: password_field_def and_then_def required_field_def run_validators_def Let_def
      split: option.splits sum.splits if_splits)

subsection \<open>The two stages of validation\<close>

lemma registration_to_internal_value_Inl:
  "registration_to_internal_value fw s d = Inl e \<Longrightarrow> \<exists>errs. e = ValidationError errs"
  by (auto simp: registration_to_internal_value_def Let_def with_field_def split: sum.splits)

lemma registration_to_internal_value_Inr:
  assumes "registration_to_internal_value fw s d = Inr a"
  shows "(\<exists>y. email_field fw s (reg_email d) = Inr y) \<and>
         password_field fw (reg_password d) = Inr (attrs_password a) \<and>
         required_field fw (reg_password_confirm d) = Inr (attrs_password_confirm a) \<and>
         username_field fw s (reg_username d) = Inr (attrs_username a)"
  using assms
  by (auto simp: registration_to_internal_value_def Let_def with_field_def split: sum.splits)

lemma register_invalid:
  "registration_is_valid fw s d = Inl e \<Longrightarrow> register fw now uid s d = (Inl e, s)"
  by (simp add: register_def)

lemma registration_is_valid_Inl:
  assumes "registration_is_valid fw s d = Inl e"
  shows "\<exists>errs. e = ValidationError errs"
proof (cases "registration_to_internal_value fw s d")
  case (Inl e')
  with assms show ?thesis
    using registration_to_internal_value_Inl [OF Inl]
    by (simp add: registration_is_valid_def and_then_def)
next
  case (Inr a)
  with assms show ?thesis
    by (auto simp: registration_is_valid_def and_then_def registration_validate_def
        split: if_splits)
qed

lemma registration_is_valid_Inr:
  assumes "registration_is_valid fw s d = Inr a"
  shows "registration_to_internal_value fw s d = Inr a \<and>
         attrs_password a = attrs_password_confirm a"
  using assms
  by (cases "registration_to_internal_value fw s d")
    (auto simp: registration_is_valid_def and_then_def registration_validate_def
      split: if_splits)


lemma sample_mismatch:
  "map_option (str_strip sample_framework)
       (reg_password (reg0\<lparr>reg_password_confirm := Some ''s3cretpasz''\<rparr>)) \<noteq>
   map_option (str_strip sample_framework)
       (reg_password_confirm (reg0\<lparr>reg_password_confirm := Some ''s3cretpasz''\<rparr>))"
  by code_simp




text \<open>
  Claim C5 as stated says that registration is rejected whenever the \<^verbatim>\<open>password\<close> and
  \<^verbatim>\<open>password_confirm\<close> fields of the payload differ.  Both fields are character
  fields with the default trimming, and \<^verbatim>\<open>validate\<close> compares the trimmed values: a
  payload whose two fields differ only in surrounding white space is accepted, and the
  three records are created.
\<close>

theorem registration_mismatch_counterexample:
  "reg_password reg_spaced \<noteq> reg_password_confirm reg_spaced \<and>
   register sample_framework 10 2 store0 reg_spaced = (Inr user_bob, store0_bob)"
  by code_simp

text \<open>
  Claim C5, amended.  When the \<^verbatim>\<open>password\<close> and \<^verbatim>\<open>password_confirm\<close> fields of
  the registration payload differ after trimming surrounding white space, or one of them
  is missing and the other is not, registration is rejected with a validation error and
  the three tables (users, profiles, settings) are left as they were.
\<close>

theorem registration_rejects_mismatch:
  assumes "map_option (str_strip fw) (reg_password d) \<noteq>
           map_option (str_strip fw) (reg_password_confirm d)"
  shows "\<exists>errs. register fw now uid s d = (Inl (ValidationError errs), s)"
proof (cases "registration_is_valid fw s d")
  case (Inl e)
  with registration_is_valid_Inl [OF Inl] show ?thesis
    by (auto simp: register_invalid)
next
  case (Inr a)
  from registration_is_valid_Inr [OF Inr]
  have tiv: "registration_to_internal_value fw s d = Inr a"
    and eq: "attrs_password a = attrs_password_confirm a" by simp_all
  from registration_to_internal_value_Inr [OF tiv]
  have "password_field fw (reg_password d) = Inr (attrs_password a)"
    and "required_field fw (reg_password_confirm d) = Inr (attrs_password_confirm a)"
    by simp_all
  then have "map_option (str_strip fw) (reg_password d) = Some (attrs_password a)"
    and "map_option (str_strip fw) (reg_password_confirm d) = Some (attrs_password_confirm a)"
    by (auto simp: password_field_iff required_field_iff)
  with eq assms show ?thesis by simp
qed

theorem registration_rejects_mismatch_witness:
  "rejected (register sample_framework 10 2 store0 (reg0\<lparr>reg_password_confirm := Some ''s3cretpasz''\<rparr>)) \<and>
   snd (register sample_framework 10 2 store0 (reg0\<lparr>reg_password_confirm := Some ''s3cretpasz''\<rparr>)) = store0"
  using registration_rejects_mismatch [OF sample_mismatch, of 10 2 store0]
  by (auto simp: rejected_def)

subsection \<open>The records of a new user\<close>







section \<open>Login\<close>










section \<open>Password change\<close>













end
